theory Spec2Isabelle
  imports Main "HOL-Library.Sublist"
begin

section \<open>Data model of core/container.go\<close>

text \<open>
  Go strings are byte strings: \<open>string\<close> (a list of 8-bit characters). A Go error value is a
  base error with its message, or an error wrapped by \<open>fmt.Errorf("<tag>: %w", err)\<close>; the
  tag is kept so that the stage that failed can be read off the result.
\<close>

datatype error = Err string | Wrap string error

type_synonym ContainerID = string

datatype Container = Container (ID: ContainerID)

text \<open>
  \<open>pb.Definition\<close> is the marshaled graph definition of the build engine; the container
  code never looks inside it, so it is modelled by its bytes. A \<open>*pb.Definition\<close> is a
  \<open>Definition option\<close>, \<open>None\<close> being the nil pointer.
\<close>

type_synonym Definition = string

type_synonym Platform = string

text \<open>
  \<open>specs.ImageConfig\<close> comes from the image specification library. The fields kept here are
  the ones the container code reads or writes (\<open>Env\<close>, \<open>WorkingDir\<close>) and the other plain
  fields of the structure (\<open>User\<close>, \<open>Entrypoint\<close>, \<open>Cmd\<close>); its zero value has every field
  empty.
\<close>

record ImageConfig =
  User :: string
  Env :: "string list"
  Entrypoint :: "string list"
  Cmd :: "string list"
  WorkingDir :: string

definition zeroImageConfig :: ImageConfig where
  "zeroImageConfig = \<lparr>User = [], Env = [], Entrypoint = [], Cmd = [], WorkingDir = []\<rparr>"

record ContainerMount =
  Source :: "Definition option"
  SourcePath :: string
  Target :: string

record containerIDPayload =
  FS :: "Definition option"
  Config :: ImageConfig
  Mounts :: "ContainerMount list"
  Meta :: "Definition option"

text \<open>The zero value \<open>containerIDPayload{}\<close>.\<close>

definition zeroPayload :: containerIDPayload where
  "zeroPayload = \<lparr>FS = None, Config = zeroImageConfig, Mounts = [], Meta = None\<rparr>"

subsection \<open>The lazy build graph\<close>

text \<open>
  \<open>llb.State\<close> is a description of deferred operations. It is modelled as the free term
  structure over the constructors the container code applies: \<open>llb.Scratch()\<close>,
  \<open>st.Run(opts...)\<close>, \<open>execSt.Root()\<close>, \<open>execSt.GetMount(target)\<close>. \<open>External\<close> stands for
  any state the engine itself produces (from a definition, the shim, an image).
\<close>

datatype MountOption = SourcePathOpt string

datatype State =
    Scratch
  | External string
  | Root ExecState
  | GetMount ExecState string
and ExecState =
    Run State "RunOption list"
and RunOption =
    AddMount string State "MountOption list"
  | Args "string list"
  | WithCustomName string
  | Dir string
  | AddEnv string string

datatype File = File (fileID: string)

datatype Directory = Directory (dirID: string)

subsection \<open>Collaborators\<close>

text \<open>
  The helpers \<open>encodeID\<close> and \<open>decodeID\<close> that turn a payload into an identity string and
  back are taken as a parameter of every operation.
\<close>

record codec =
  encodeID :: "containerIDPayload \<Rightarrow> error + string"
  decodeID :: "string \<Rightarrow> error + containerIDPayload"

text \<open>
  The build engine and the sibling helpers the container code calls:
  \<open>marshal\<close> is \<open>st.Marshal(ctx, constraints...)\<close> followed by \<open>ToPB()\<close>, the platform
  constraint being optional; \<open>defToState\<close> receives the pointer as it is passed;
  \<open>fileContents\<close> is \<open>file.Contents\<close>, called on a possibly nil receiver.
\<close>

record engine =
  marshal :: "Platform option \<Rightarrow> State \<Rightarrow> error + Definition"
  defToState :: "Definition option \<Rightarrow> error + State"
  shimBuild :: "Platform \<Rightarrow> error + State"
  shimPath :: string
  dirDecode :: "Directory \<Rightarrow> error + (State \<times> string)"
  newFile :: "State \<Rightarrow> string \<Rightarrow> error + File option"
  fileContents :: "File option \<Rightarrow> error + string"

section \<open>Identity and payload\<close>

definition decode :: "codec \<Rightarrow> ContainerID \<Rightarrow> error + containerIDPayload" where
  "decode cdc id' = (if id' = [] then Inr zeroPayload else decodeID cdc id')"

definition Encode :: "codec \<Rightarrow> containerIDPayload \<Rightarrow> error + ContainerID" where
  "Encode cdc payload = (case encodeID cdc payload of Inl err \<Rightarrow> Inl err | Inr id' \<Rightarrow> Inr id')"

definition FSState :: "engine \<Rightarrow> containerIDPayload \<Rightarrow> error + State" where
  "FSState eng payload =
     (if FS payload = None then Inr Scratch else defToState eng (FS payload))"

definition metaMount :: string where
  "metaMount = ''/dagger''"

definition MetaState :: "engine \<Rightarrow> containerIDPayload \<Rightarrow> error + State option" where
  "MetaState eng payload =
     (if Meta payload = None then Inr None
      else case defToState eng (Meta payload) of
             Inl err \<Rightarrow> Inl err
           | Inr metaSt \<Rightarrow> Inr (Some metaSt))"

definition SourceState :: "engine \<Rightarrow> ContainerMount \<Rightarrow> error + State" where
  "SourceState eng mnt = defToState eng (Source mnt)"

section \<open>String helpers of the Go library\<close>

text \<open>
  \<open>strings.Cut(s, "=")\<close> splits at the first separator: the part before, the part after and
  whether the separator was found; without a separator the whole string comes back with an
  empty remainder. The separator is the single byte the code passes.
\<close>

fun Cut :: "string \<Rightarrow> char \<Rightarrow> string \<times> string \<times> bool" where
  "Cut [] sep = ([], [], False)"
| "Cut (c # cs) sep =
     (if c = sep then ([], cs, True)
      else case Cut cs sep of (before, after, found) \<Rightarrow> (c # before, after, found))"

definition HasPrefix :: "string \<Rightarrow> string \<Rightarrow> bool" where
  "HasPrefix s pre = (length pre \<le> length s \<and> take (length pre) s = pre)"

fun Join :: "string list \<Rightarrow> string \<Rightarrow> string" where
  "Join [] sep = []"
| "Join [a] sep = a"
| "Join (a # b # rest) sep = a @ sep @ Join (b # rest) sep"

text \<open>
  \<open>strconv.Atoi\<close> on a 64-bit platform: an optional sign, then at least one decimal digit
  and nothing else, the value within the range of \<open>int\<close>.
\<close>

fun digitsVal :: "string \<Rightarrow> nat \<Rightarrow> nat option" where
  "digitsVal [] n = Some n"
| "digitsVal (ch # s) n =
     (if (48::nat) \<le> of_char ch \<and> of_char ch \<le> (57::nat)
      then digitsVal s (n * 10 + (of_char ch - 48))
      else None)"

definition Atoi :: "string \<Rightarrow> error + int" where
  "Atoi s =
     (case s of
        [] \<Rightarrow> Inl (Err ''invalid syntax'')
      | c # cs \<Rightarrow>
          (let neg = (c = CHR ''-'');
               ds = (if c = CHR ''-'' \<or> c = CHR ''+'' then cs else s)
           in if ds = [] then Inl (Err ''invalid syntax'')
              else case digitsVal ds 0 of
                     None \<Rightarrow> Inl (Err ''invalid syntax'')
                   | Some n \<Rightarrow>
                       (let v = (if neg then - int n else int n)
                        in if v < - (2 ^ 63) \<or> 2 ^ 63 - 1 < v
                           then Inl (Err ''value out of range'')
                           else Inr v)))"

section \<open>Container operations\<close>

definition WithMountedDirectory ::
  "engine \<Rightarrow> codec \<Rightarrow> Container \<Rightarrow> string \<Rightarrow> Directory \<Rightarrow> error + Container" where
  "WithMountedDirectory eng cdc container target source =
     (case decode cdc (ID container) of
        Inl err \<Rightarrow> Inl err
      | Inr payload \<Rightarrow>
          (case dirDecode eng source of
             Inl err \<Rightarrow> Inl err
           | Inr (dirSt, dirRel) \<Rightarrow>
               (case marshal eng None dirSt of
                  Inl err \<Rightarrow> Inl err
                | Inr dirDef \<Rightarrow>
                    (case Encode cdc
                            (payload\<lparr>Mounts := Mounts payload @
                               [\<lparr>Source = Some dirDef, SourcePath = dirRel, Target = target\<rparr>]\<rparr>) of
                       Inl err \<Rightarrow> Inl err
                     | Inr id' \<Rightarrow> Inr (Container id')))))"

definition ImageConfig :: "codec \<Rightarrow> Container \<Rightarrow> error + ImageConfig" where
  "ImageConfig cdc container =
     (case decode cdc (ID container) of
        Inl err \<Rightarrow> Inl err
      | Inr payload \<Rightarrow> Inr (Config payload))"

definition UpdateImageConfig ::
  "codec \<Rightarrow> Container \<Rightarrow> (ImageConfig \<Rightarrow> ImageConfig) \<Rightarrow> error + Container" where
  "UpdateImageConfig cdc container updateFn =
     (case decode cdc (ID container) of
        Inl err \<Rightarrow> Inl err
      | Inr payload \<Rightarrow>
          (case Encode cdc (payload\<lparr>Config := updateFn (Config payload)\<rparr>) of
             Inl err \<Rightarrow> Inl err
           | Inr id' \<Rightarrow> Inr (Container id')))"

subsection \<open>Resolvers that update the configuration\<close>

definition withWorkdir :: "codec \<Rightarrow> Container \<Rightarrow> string \<Rightarrow> error + Container" where
  "withWorkdir cdc parent path =
     UpdateImageConfig cdc parent (\<lambda>cfg. cfg\<lparr>WorkingDir := path\<rparr>)"

text \<open>The loop of \<open>withVariable\<close> over \<open>cfg.Env\<close>, with \<open>newEnv\<close> as its accumulator.\<close>

fun withVariable_loop :: "string \<Rightarrow> string list \<Rightarrow> string list \<Rightarrow> string list" where
  "withVariable_loop pre [] newEnv = newEnv"
| "withVariable_loop pre (env # rest) newEnv =
     withVariable_loop pre rest (if \<not> HasPrefix env pre then newEnv @ [env] else newEnv)"

text \<open>The function \<open>withVariable\<close> hands to \<open>UpdateImageConfig\<close>.\<close>

definition withVariable_update :: "string \<Rightarrow> string \<Rightarrow> ImageConfig \<Rightarrow> ImageConfig" where
  "withVariable_update name val cfg =
     (let pre = name @ ''='';
          newEnv = withVariable_loop pre (Env cfg) [];
          newEnv = newEnv @ [name @ ''='' @ val]
      in cfg\<lparr>Env := newEnv\<rparr>)"

definition withVariable :: "codec \<Rightarrow> Container \<Rightarrow> string \<Rightarrow> string \<Rightarrow> error + Container" where
  "withVariable cdc parent name val =
     UpdateImageConfig cdc parent (withVariable_update name val)"

section \<open>Execution\<close>

record ContainerExecOpts =
  Stdin :: "string option"
  RedirectStdout :: "string option"
  RedirectStderr :: "string option"

text \<open>The run options \<open>Exec\<close> starts from: the shim, the arguments, the label, the metadata mount.\<close>

definition initialRunOpts :: "engine \<Rightarrow> State \<Rightarrow> string list \<Rightarrow> RunOption list" where
  "initialRunOpts eng shimSt args =
     [AddMount (shimPath eng) shimSt [SourcePathOpt (shimPath eng)],
      Args (shimPath eng # args),
      WithCustomName (Join args '' ''),
      AddMount metaMount Scratch []]"

text \<open>The loop over \<open>cfg.Env\<close>: the result of \<open>strings.Cut\<close> is used whether or not it found a separator.\<close>

fun envLoop :: "string list \<Rightarrow> RunOption list \<Rightarrow> RunOption list" where
  "envLoop [] runOpts = runOpts"
| "envLoop (env # rest) runOpts =
     (case Cut env CHR ''='' of
        (name, val, ok) \<Rightarrow> envLoop rest (runOpts @ [AddEnv name val]))"

text \<open>The loop that attaches every mount again; it stops at the first source that does not resolve.\<close>

fun mountLoop :: "engine \<Rightarrow> ContainerMount list \<Rightarrow> RunOption list \<Rightarrow> error + RunOption list" where
  "mountLoop eng [] runOpts = Inr runOpts"
| "mountLoop eng (mnt # rest) runOpts =
     (case SourceState eng mnt of
        Inl err \<Rightarrow> Inl (Wrap (''mount '' @ Target mnt) err)
      | Inr st \<Rightarrow>
          (let mountOpts = (if SourcePath mnt \<noteq> [] then [SourcePathOpt (SourcePath mnt)] else [])
           in mountLoop eng rest (runOpts @ [AddMount (Target mnt) st mountOpts])))"

text \<open>Lines 219 to 254 of \<open>Exec\<close>: the run options for a shim state, arguments, configuration and mounts.\<close>

definition buildRunOpts ::
  "engine \<Rightarrow> State \<Rightarrow> string list \<Rightarrow> ImageConfig \<Rightarrow> ContainerMount list \<Rightarrow> error + RunOption list" where
  "buildRunOpts eng shimSt args cfg mounts =
     (let runOpts = initialRunOpts eng shimSt args;
          runOpts = (if WorkingDir cfg \<noteq> [] then runOpts @ [Dir (WorkingDir cfg)] else runOpts);
          runOpts = envLoop (Env cfg) runOpts
      in mountLoop eng mounts runOpts)"

text \<open>
  The propagation loop \<open>for i, mnt := range mounts\<close>: it writes \<open>mounts[i].Source\<close> in place
  and stops at the first marshal that fails.
\<close>

function propagate ::
  "engine \<Rightarrow> Platform \<Rightarrow> ExecState \<Rightarrow> nat \<Rightarrow> ContainerMount list \<Rightarrow> error + ContainerMount list" where
  "propagate eng platform execSt i mounts =
     (if i < length mounts then
        (let mnt = mounts ! i in
         case marshal eng (Some platform) (GetMount execSt (Target mnt)) of
           Inl err \<Rightarrow> Inl (Wrap (''propagate '' @ Target mnt) err)
         | Inr execMountDef \<Rightarrow>
             propagate eng platform execSt (Suc i)
               (mounts[i := (mounts ! i)\<lparr>Source := Some execMountDef\<rparr>]))
      else Inr mounts)"
  by pat_completeness auto
termination
  by (relation "measure (\<lambda>(eng, platform, execSt, i, mounts). length mounts - i)") auto

declare propagate.simps [simp del]

definition Exec ::
  "engine \<Rightarrow> codec \<Rightarrow> Container \<Rightarrow> Platform \<Rightarrow> string list \<Rightarrow> ContainerExecOpts \<Rightarrow> error + Container" where
  "Exec eng cdc container platform args opts =
     (case decode cdc (ID container) of
        Inl err \<Rightarrow> Inl (Wrap ''decode id'' err)
      | Inr payload \<Rightarrow>
          (let cfg = Config payload; mounts = Mounts payload in
           case shimBuild eng platform of
             Inl err \<Rightarrow> Inl (Wrap ''build shim'' err)
           | Inr shimSt \<Rightarrow>
               (case buildRunOpts eng shimSt args cfg mounts of
                  Inl err \<Rightarrow> Inl err
                | Inr runOpts \<Rightarrow>
                    (case FSState eng payload of
                       Inl err \<Rightarrow> Inl (Wrap ''fs state'' err)
                     | Inr st \<Rightarrow>
                         (let execSt = Run st runOpts in
                          case marshal eng (Some platform) (Root execSt) of
                            Inl err \<Rightarrow> Inl (Wrap ''marshal root'' err)
                          | Inr execDef \<Rightarrow>
                              (case propagate eng platform execSt 0 mounts of
                                 Inl err \<Rightarrow> Inl err
                               | Inr mounts' \<Rightarrow>
                                   (case marshal eng (Some platform) (GetMount execSt metaMount) of
                                      Inl err \<Rightarrow> Inl (Wrap ''get meta mount'' err)
                                    | Inr metaDef \<Rightarrow>
                                        (case Encode cdc
                                                (payload\<lparr>FS := Some execDef, Mounts := mounts',
                                                         Meta := Some metaDef\<rparr>) of
                                           Inl err \<Rightarrow> Inl (Wrap ''encode'' err)
                                         | Inr id' \<Rightarrow> Inr (Container id')))))))))"

section \<open>Metadata retrieval\<close>

definition MetaFile :: "engine \<Rightarrow> codec \<Rightarrow> Container \<Rightarrow> string \<Rightarrow> error + File option" where
  "MetaFile eng cdc container path =
     (case decode cdc (ID container) of
        Inl err \<Rightarrow> Inl err
      | Inr payload \<Rightarrow>
          (case MetaState eng payload of
             Inl err \<Rightarrow> Inl err
           | Inr meta \<Rightarrow>
               (case meta of
                  None \<Rightarrow> Inr None
                | Some metaSt \<Rightarrow> newFile eng metaSt path)))"

definition ExitCode :: "engine \<Rightarrow> codec \<Rightarrow> Container \<Rightarrow> error + int option" where
  "ExitCode eng cdc container =
     (case MetaFile eng cdc container ''exitCode'' of
        Inl err \<Rightarrow> Inl err
      | Inr file \<Rightarrow>
          (if file \<noteq> None then Inr None
           else case fileContents eng file of
                  Inl err \<Rightarrow> Inl err
                | Inr content \<Rightarrow>
                    (case Atoi content of
                       Inl err \<Rightarrow> Inl err
                     | Inr exitCode \<Rightarrow> Inr (Some exitCode))))"

section \<open>The identity codec\<close>

text \<open>
  Modelled from the spec: the helpers \<open>encodeID\<close> and \<open>decodeID\<close>, which \<open>Encode\<close> and
  \<open>decode\<close> call and whose source is not part of core/container.go. The specification asks
  for a deterministic serialisation with a stable field order and a versioned envelope,
  and for a deserialisation that fails with a decoding error on malformed or corrupt input.
  The serialisation below writes a version byte and then the fields in their declaration
  order; a string is written with an escape byte and a terminator, a list with its length
  in front.
\<close>

fun esc :: "string \<Rightarrow> string" where
  "esc [] = [CHR '';'']"
| "esc (c # cs) =
     (if c = CHR '';'' \<or> c = CHR ''!'' then CHR ''!'' # c # esc cs else c # esc cs)"

fun unesc :: "string \<Rightarrow> (string \<times> string) option" where
  "unesc [] = None"
| "unesc (c # cs) =
     (if c = CHR '';'' then Some ([], cs)
      else if c = CHR ''!'' then
        (case cs of
           [] \<Rightarrow> None
         | d # ds \<Rightarrow> (case unesc ds of None \<Rightarrow> None | Some (s, r) \<Rightarrow> Some (d # s, r)))
      else (case unesc cs of None \<Rightarrow> None | Some (s, r) \<Rightarrow> Some (c # s, r)))"

definition encList :: "('a \<Rightarrow> string) \<Rightarrow> 'a list \<Rightarrow> string" where
  "encList enc xs = replicate (length xs) CHR ''+'' @ CHR '':'' # concat (map enc xs)"

fun decCount :: "string \<Rightarrow> (nat \<times> string) option" where
  "decCount [] = None"
| "decCount (c # cs) =
     (if c = CHR '':'' then Some (0, cs)
      else if c = CHR ''+'' then
        (case decCount cs of None \<Rightarrow> None | Some (n, r) \<Rightarrow> Some (Suc n, r))
      else None)"

fun decItems :: "(string \<Rightarrow> ('a \<times> string) option) \<Rightarrow> nat \<Rightarrow> string \<Rightarrow> ('a list \<times> string) option" where
  "decItems dec 0 inp = Some ([], inp)"
| "decItems dec (Suc n) inp =
     (case dec inp of
        None \<Rightarrow> None
      | Some (x, r) \<Rightarrow>
          (case decItems dec n r of None \<Rightarrow> None | Some (xs, r') \<Rightarrow> Some (x # xs, r')))"

definition decList :: "(string \<Rightarrow> ('a \<times> string) option) \<Rightarrow> string \<Rightarrow> ('a list \<times> string) option" where
  "decList dec inp = (case decCount inp of None \<Rightarrow> None | Some (n, r) \<Rightarrow> decItems dec n r)"

definition encDef :: "Definition option \<Rightarrow> string" where
  "encDef d = (case d of None \<Rightarrow> ''N'' | Some b \<Rightarrow> CHR ''S'' # esc b)"

definition decDef :: "string \<Rightarrow> (Definition option \<times> string) option" where
  "decDef inp =
     (case inp of
        [] \<Rightarrow> None
      | c # cs \<Rightarrow>
          (if c = CHR ''N'' then Some (None, cs)
           else if c = CHR ''S'' then
             (case unesc cs of None \<Rightarrow> None | Some (b, r) \<Rightarrow> Some (Some b, r))
           else None))"

definition encMount :: "ContainerMount \<Rightarrow> string" where
  "encMount m = encDef (Source m) @ esc (SourcePath m) @ esc (Target m)"

definition decMount :: "string \<Rightarrow> (ContainerMount \<times> string) option" where
  "decMount inp =
     (case decDef inp of
        None \<Rightarrow> None
      | Some (src, r1) \<Rightarrow>
          (case unesc r1 of
             None \<Rightarrow> None
           | Some (sp, r2) \<Rightarrow>
               (case unesc r2 of
                  None \<Rightarrow> None
                | Some (tg, r3) \<Rightarrow> Some (\<lparr>Source = src, SourcePath = sp, Target = tg\<rparr>, r3))))"

definition encConfig :: "ImageConfig \<Rightarrow> string" where
  "encConfig cfg =
     esc (User cfg) @ encList esc (Env cfg) @ encList esc (Entrypoint cfg)
       @ encList esc (Cmd cfg) @ esc (WorkingDir cfg)"

definition decConfig :: "string \<Rightarrow> (ImageConfig \<times> string) option" where
  "decConfig inp =
     (case unesc inp of
        None \<Rightarrow> None
      | Some (u, r1) \<Rightarrow>
          (case decList unesc r1 of
             None \<Rightarrow> None
           | Some (e, r2) \<Rightarrow>
               (case decList unesc r2 of
                  None \<Rightarrow> None
                | Some (ep, r3) \<Rightarrow>
                    (case decList unesc r3 of
                       None \<Rightarrow> None
                     | Some (cm, r4) \<Rightarrow>
                         (case unesc r4 of
                            None \<Rightarrow> None
                          | Some (w, r5) \<Rightarrow>
                              Some (\<lparr>User = u, Env = e, Entrypoint = ep, Cmd = cm,
                                     WorkingDir = w\<rparr>, r5))))))"

definition encPayload :: "containerIDPayload \<Rightarrow> string" where
  "encPayload p =
     CHR ''1'' # encDef (FS p) @ encConfig (Config p) @ encList encMount (Mounts p)
       @ encDef (Meta p)"

definition decPayload :: "string \<Rightarrow> containerIDPayload option" where
  "decPayload inp =
     (case inp of
        [] \<Rightarrow> None
      | v # r0 \<Rightarrow>
          (if v \<noteq> CHR ''1'' then None
           else case decDef r0 of
             None \<Rightarrow> None
           | Some (fs, r1) \<Rightarrow>
               (case decConfig r1 of
                  None \<Rightarrow> None
                | Some (cfg, r2) \<Rightarrow>
                    (case decList decMount r2 of
                       None \<Rightarrow> None
                     | Some (ms, r3) \<Rightarrow>
                         (case decDef r3 of
                            None \<Rightarrow> None
                          | Some (mt, r4) \<Rightarrow>
                              (if r4 = [] then
                                 Some \<lparr>FS = fs, Config = cfg, Mounts = ms, Meta = mt\<rparr>
                               else None))))))"

definition specCodec :: codec where
  "specCodec =
     \<lparr>encodeID = (\<lambda>p. Inr (encPayload p)),
      decodeID = (\<lambda>i. case decPayload i of
                         None \<Rightarrow> Inl (Err ''malformed identity'')
                       | Some p \<Rightarrow> Inr p)\<rparr>"

text \<open>
  The contract of the codec that the operations rely on: what \<open>encodeID\<close> produces is never
  the empty string (the scratch sentinel of \<open>decode\<close>) and \<open>decodeID\<close> gives the payload back.
\<close>

definition codec_ok :: "codec \<Rightarrow> bool" where
  "codec_ok cdc = (\<forall>p i. encodeID cdc p = Inr i \<longrightarrow> i \<noteq> [] \<and> decodeID cdc i = Inr p)"

section \<open>A small engine for concrete runs\<close>

text \<open>
  An engine in which every step succeeds: a state is marshaled to a short name, a
  definition is read back as an external state, the metadata directory holds a file
  \<open>exitCode\<close> with the content \<open>0\<close>.
\<close>

definition stateName :: "State \<Rightarrow> string" where
  "stateName st =
     (case st of
        Scratch \<Rightarrow> ''scratch''
      | External n \<Rightarrow> n
      | Root e \<Rightarrow> ''root''
      | GetMount e t \<Rightarrow> ''mount:'' @ t)"

definition mockEngine :: engine where
  "mockEngine =
     \<lparr>marshal = (\<lambda>pf st. Inr (stateName st)),
      defToState = (\<lambda>d. case d of None \<Rightarrow> Inl (Err ''nil definition'') | Some b \<Rightarrow> Inr (External b)),
      shimBuild = (\<lambda>pf. Inr (External ''shim'')),
      shimPath = ''/_shim'',
      dirDecode = (\<lambda>d. Inr (External (dirID d), [])),
      newFile = (\<lambda>st path. Inr (Some (File path))),
      fileContents = (\<lambda>f. case f of None \<Rightarrow> Inl (Err ''nil file'') | Some f' \<Rightarrow> Inr ''0'')\<rparr>"

text \<open>The same engine, except that marshaling the state of one mount target fails.\<close>

definition failingEngine :: "string \<Rightarrow> engine" where
  "failingEngine target =
     mockEngine\<lparr>marshal := (\<lambda>pf st.
        case st of
          GetMount e t \<Rightarrow> if t = target then Inl (Err ''marshal failed'') else Inr (stateName st)
        | _ \<Rightarrow> Inr (stateName st))\<rparr>"

section \<open>Reference notions and example values\<close>

text \<open>
  The name of an environment entry, as \<open>Exec\<close> reads it: what \<open>strings.Cut\<close> returns in
  front of the first \<open>=\<close>, the whole entry when there is none.
\<close>

definition envName :: "string \<Rightarrow> string" where
  "envName e = fst (Cut e CHR ''='')"

text \<open>
  The environment list in the words of the specification of \<open>withVariable\<close>: every entry
  whose name equals the given name removed, the new pair appended.
\<close>

definition claimedEnv :: "string \<Rightarrow> string \<Rightarrow> string list \<Rightarrow> string list" where
  "claimedEnv name val env = filter (\<lambda>e. envName e \<noteq> name) env @ [name @ ''='' @ val]"

text \<open>A payload with two mounts, the same payload with the mounts in the other order, and containers.\<close>

definition examplePayload :: containerIDPayload where
  "examplePayload =
     \<lparr>FS = Some ''root'',
      Config = \<lparr>User = [], Env = [''A=1'', ''DEBUG''], Entrypoint = [], Cmd = [''sh'', ''-c'', ''a;b!''], WorkingDir = ''/w''\<rparr>,
      Mounts = [\<lparr>Source = Some ''d1'', SourcePath = [], Target = ''/data''\<rparr>,
                \<lparr>Source = Some ''d2'', SourcePath = ''sub'', Target = ''/cache''\<rparr>],
      Meta = None\<rparr>"

definition reorderedPayload :: containerIDPayload where
  "reorderedPayload = examplePayload\<lparr>Mounts := rev (Mounts examplePayload)\<rparr>"

definition exampleContainer :: Container where
  "exampleContainer = Container (encPayload examplePayload)"

definition allOpts :: ContainerExecOpts where
  "allOpts = \<lparr>Stdin = Some ''input'', RedirectStdout = Some ''/out'', RedirectStderr = Some ''/err''\<rparr>"

definition noOpts :: ContainerExecOpts where
  "noOpts = \<lparr>Stdin = None, RedirectStdout = None, RedirectStderr = None\<rparr>"

text \<open>The container that running a command in the scratch container gives with \<open>mockEngine\<close>.\<close>

definition executedContainer :: Container where
  "executedContainer = Container (encPayload (zeroPayload\<lparr>FS := Some ''root'', Meta := Some ''mount:/dagger''\<rparr>))"

section \<open>Facts about the helpers\<close>

subsection \<open>Strings\<close>

lemma HasPrefix_prefix: "HasPrefix s pre = prefix pre s"
proof
  assume "HasPrefix s pre"
  then have "take (length pre) s = pre" by (simp add: HasPrefix_def)
  then have "s = pre @ drop (length pre) s" by (metis append_take_drop_id)
  then show "prefix pre s" by (metis prefixI)
next
  assume "prefix pre s"
  then show "HasPrefix s pre" by (auto simp: HasPrefix_def prefix_def)
qed

lemma Cut_no_sep: "sep \<notin> set s \<Longrightarrow> Cut s sep = (s, [], False)"
  by (induction s) auto

lemma Cut_sep: "sep \<notin> set n \<Longrightarrow> Cut (n @ sep # v) sep = (n, v, True)"
  by (induction n) auto

lemma Cut_found: "Cut s sep = (b, a, True) \<Longrightarrow> s = b @ sep # a"
  by (induction s arbitrary: b) (auto split: if_splits prod.splits)

lemma Cut_mem: "sep \<in> set s \<Longrightarrow> \<exists>b a. Cut s sep = (b, a, True)"
  by (induction s) (auto split: prod.splits)

lemma prefix_iff_envName:
  assumes "CHR ''='' \<notin> set name" "e \<noteq> name"
  shows "prefix (name @ ''='') e \<longleftrightarrow> envName e = name"
proof
  assume "prefix (name @ ''='') e"
  then obtain r where "e = name @ CHR ''='' # r" by (auto simp: prefix_def)
  with assms(1) show "envName e = name" by (simp add: envName_def Cut_sep)
next
  assume n: "envName e = name"
  show "prefix (name @ ''='') e"
  proof (cases "CHR ''='' \<in> set e")
    case True
    then obtain b a where c: "Cut e CHR ''='' = (b, a, True)" using Cut_mem by blast
    with n have "b = name" by (simp add: envName_def)
    with Cut_found [OF c] show ?thesis by (simp add: prefix_def)
  next
    case False
    then have "envName e = e" by (simp add: envName_def Cut_no_sep)
    with n assms(2) show ?thesis by simp
  qed
qed

subsection \<open>The codec\<close>

lemma unesc_esc: "unesc (esc s @ r) = Some (s, r)"
  by (induction s) auto

lemma decCount_replicate: "decCount (replicate n CHR ''+'' @ CHR '':'' # r) = Some (n, r)"
  by (induction n) auto

lemma decItems_concat:
  assumes "\<And>x r. dec (enc x @ r) = Some (x, r)"
  shows "decItems dec (length xs) (concat (map enc xs) @ r) = Some (xs, r)"
  using assms by (induction xs) auto

lemma decList_encList:
  assumes "\<And>x r. dec (enc x @ r) = Some (x, r)"
  shows "decList dec (encList enc xs @ r) = Some (xs, r)"
  using decItems_concat [of dec enc xs r, OF assms]
  by (simp add: decList_def encList_def decCount_replicate)

lemma decDef_encDef: "decDef (encDef d @ r) = Some (d, r)"
  by (cases d) (simp_all add: decDef_def encDef_def unesc_esc)

lemma decMount_encMount: "decMount (encMount m @ r) = Some (m, r)"
  by (simp add: decMount_def encMount_def decDef_encDef unesc_esc)

lemma decConfig_encConfig: "decConfig (encConfig cfg @ r) = Some (cfg, r)"
  by (simp add: decConfig_def encConfig_def unesc_esc decList_encList [of unesc esc])

lemma decPayload_encPayload: "decPayload (encPayload p) = Some p"
  using decDef_encDef [of "Meta p" "[]"]
  by (simp add: decPayload_def encPayload_def decDef_encDef decConfig_encConfig
      decList_encList [of decMount encMount] decMount_encMount)

lemma encPayload_nonempty: "encPayload p \<noteq> []"
  by (simp add: encPayload_def)

lemma specCodec_ok: "codec_ok specCodec"
  by (auto simp: codec_ok_def specCodec_def decPayload_encPayload encPayload_nonempty)

lemma Encode_specCodec: "Encode specCodec p = Inr (encPayload p)"
  by (simp add: Encode_def specCodec_def)

lemma decode_specCodec: "decode specCodec (encPayload p) = Inr p"
  by (simp add: decode_def specCodec_def encPayload_nonempty decPayload_encPayload)

lemma encPayload_inj: "encPayload p = encPayload q \<Longrightarrow> p = q"
  by (metis decPayload_encPayload option.inject)

lemma codec_ok_decode_Encode:
  assumes "codec_ok cdc" "Encode cdc p = Inr i"
  shows "decode cdc i = Inr p"
  using assms by (auto simp: codec_ok_def Encode_def decode_def split: sum.splits)

lemma example_decodes: "decode specCodec (ID exampleContainer) = Inr examplePayload"
  by (simp add: exampleContainer_def decode_specCodec)

lemmas mock_defs = mockEngine_def failingEngine_def stateName_def examplePayload_def
  buildRunOpts_def initialRunOpts_def SourceState_def FSState_def Let_def metaMount_def

subsection \<open>The loops\<close>

lemma withVariable_loop_filter:
  "withVariable_loop pre envs acc = acc @ filter (\<lambda>e. \<not> HasPrefix e pre) envs"
  by (induction envs arbitrary: acc) auto

lemma withVariable_update_Env:
  "Env (withVariable_update name val cfg) =
     filter (\<lambda>e. \<not> prefix (name @ ''='') e) (Env cfg) @ [name @ ''='' @ val]"
  by (simp add: withVariable_update_def Let_def withVariable_loop_filter HasPrefix_prefix)

lemma envLoop_map:
  "envLoop envs runOpts = runOpts @ map (\<lambda>e. AddEnv (fst (Cut e CHR ''='')) (fst (snd (Cut e CHR ''='')))) envs"
  by (induction envs arbitrary: runOpts) (auto split: prod.splits)

lemma envLoop_mem:
  "env \<in> set envs \<Longrightarrow> CHR ''='' \<notin> set env \<Longrightarrow> AddEnv env [] \<in> set (envLoop envs opts0)"
  by (force simp: envLoop_map Cut_no_sep)

lemma propagate_Inr:
  "propagate eng pf ex i ms = Inr ms' \<Longrightarrow>
     length ms' = length ms \<and>
     (\<forall>k<length ms.
        Target (ms' ! k) = Target (ms ! k) \<and> SourcePath (ms' ! k) = SourcePath (ms ! k) \<and>
        (k < i \<longrightarrow> ms' ! k = ms ! k) \<and>
        (i \<le> k \<longrightarrow> (\<exists>d. marshal eng (Some pf) (GetMount ex (Target (ms ! k))) = Inr d
                         \<and> Source (ms' ! k) = Some d)))"
proof (induction eng pf ex i ms rule: propagate.induct)
  case (1 eng pf ex i ms)
  show ?case
  proof (cases "i < length ms")
    case False
    with "1.prems" show ?thesis by (simp add: propagate.simps)
  next
    case True
    from "1.prems" True obtain d where
      m: "marshal eng (Some pf) (GetMount ex (Target (ms ! i))) = Inr d"
      and rec: "propagate eng pf ex (Suc i) (ms[i := (ms ! i)\<lparr>Source := Some d\<rparr>]) = Inr ms'"
      by (subst (asm) propagate.simps) (auto simp: Let_def split: sum.splits)
    let ?ms1 = "ms[i := (ms ! i)\<lparr>Source := Some d\<rparr>]"
    have tg: "Target (?ms1 ! k) = Target (ms ! k)" "SourcePath (?ms1 ! k) = SourcePath (ms ! k)"
      if "k < length ms" for k
      using that True by (simp_all add: nth_list_update)
    from "1.IH" [OF True refl m rec]
    have ih: "length ms' = length ?ms1"
      "\<And>k. k < length ms \<Longrightarrow>
        Target (ms' ! k) = Target (?ms1 ! k) \<and> SourcePath (ms' ! k) = SourcePath (?ms1 ! k) \<and>
        (k < Suc i \<longrightarrow> ms' ! k = ?ms1 ! k) \<and>
        (Suc i \<le> k \<longrightarrow> (\<exists>d. marshal eng (Some pf) (GetMount ex (Target (?ms1 ! k))) = Inr d
                         \<and> Source (ms' ! k) = Some d))"
      by simp_all
    show ?thesis
    proof (intro conjI allI impI)
      show "length ms' = length ms" using ih(1) by simp
    next
      fix k assume k: "k < length ms"
      show "Target (ms' ! k) = Target (ms ! k)" using ih(2) [OF k] tg [OF k] by simp
      show "SourcePath (ms' ! k) = SourcePath (ms ! k)" using ih(2) [OF k] tg [OF k] by simp
      show "ms' ! k = ms ! k" if "k < i" using ih(2) [OF k] that by simp
      show "\<exists>d. marshal eng (Some pf) (GetMount ex (Target (ms ! k))) = Inr d \<and> Source (ms' ! k) = Some d"
        if "i \<le> k"
      proof (cases "k = i")
        case True
        with ih(2) [OF k] k m show ?thesis by simp
      next
        case False
        with that have "Suc i \<le> k" by simp
        with ih(2) [OF k] tg [OF k] show ?thesis by simp
      qed
    qed
  qed
qed

lemma propagate_Inl:
  "i \<le> n \<Longrightarrow> n < length ms \<Longrightarrow>
   (\<forall>j. i \<le> j \<and> j < n \<longrightarrow> (\<exists>d. marshal eng (Some pf) (GetMount ex (Target (ms ! j))) = Inr d)) \<Longrightarrow>
   marshal eng (Some pf) (GetMount ex (Target (ms ! n))) = Inl e \<Longrightarrow>
   propagate eng pf ex i ms = Inl (Wrap (''propagate '' @ Target (ms ! n)) e)"
proof (induction eng pf ex i ms rule: propagate.induct)
  case (1 eng pf ex i ms)
  from "1.prems" have il: "i < length ms" by simp
  show ?case
  proof (cases "i = n")
    case True
    with "1.prems" il show ?thesis by (subst propagate.simps) (simp add: Let_def)
  next
    case False
    with "1.prems" have lt: "i < n" by simp
    with "1.prems" obtain d where m: "marshal eng (Some pf) (GetMount ex (Target (ms ! i))) = Inr d"
      by blast
    let ?ms1 = "ms[i := (ms ! i)\<lparr>Source := Some d\<rparr>]"
    have tg: "Target (?ms1 ! k) = Target (ms ! k)" if "k < length ms" for k
      using that il by (simp add: nth_list_update)
    have "propagate eng pf ex (Suc i) ?ms1 = Inl (Wrap (''propagate '' @ Target (?ms1 ! n)) e)"
    proof (rule "1.IH" [OF il refl m])
      show "Suc i \<le> n" using lt by simp
      show "n < length ?ms1" using "1.prems" by simp
      show "\<forall>j. Suc i \<le> j \<and> j < n \<longrightarrow>
          (\<exists>d. marshal eng (Some pf) (GetMount ex (Target (?ms1 ! j))) = Inr d)"
        using "1.prems" tg by auto
      show "marshal eng (Some pf) (GetMount ex (Target (?ms1 ! n))) = Inl e"
        using "1.prems" tg by simp
    qed
    with tg [of n] "1.prems" m il show ?thesis
      by (subst propagate.simps) (simp add: Let_def)
  qed
qed

lemma mountLoop_keeps:
  "mountLoop eng ms opts0 = Inr opts \<Longrightarrow> x \<in> set opts0 \<Longrightarrow> x \<in> set opts"
proof (induction ms arbitrary: opts0)
  case Nil
  then show ?case by simp
next
  case (Cons m ms)
  from Cons.prems(1) obtain st where
    rec: "mountLoop eng ms (opts0 @ [AddMount (Target m) st
             (if SourcePath m \<noteq> [] then [SourcePathOpt (SourcePath m)] else [])]) = Inr opts"
    by (auto simp: Let_def split: sum.splits)
  show ?case by (rule Cons.IH [OF rec]) (simp add: Cons.prems(2))
qed

lemma mountLoop_Inr:
  "mountLoop eng ms opts0 = Inr opts \<Longrightarrow> \<forall>m\<in>set ms. \<exists>st. SourceState eng m = Inr st"
  by (induction ms arbitrary: opts0) (auto simp: Let_def split: sum.splits)

lemma mountLoop_Inl:
  "mountLoop eng ms opts0 = Inl err \<Longrightarrow>
     \<exists>m\<in>set ms. \<exists>e. SourceState eng m = Inl e \<and> err = Wrap (''mount '' @ Target m) e"
  by (induction ms arbitrary: opts0) (auto simp: Let_def split: sum.splits)

lemma propagate_Inl_tag:
  "propagate eng pf ex i ms = Inl err \<Longrightarrow>
     \<exists>k<length ms. \<exists>e. err = Wrap (''propagate '' @ Target (ms ! k)) e"
proof (induction eng pf ex i ms rule: propagate.induct)
  case (1 eng pf ex i ms)
  show ?case
  proof (cases "i < length ms")
    case False
    with "1.prems" show ?thesis by (simp add: propagate.simps)
  next
    case True
    show ?thesis
    proof (cases "marshal eng (Some pf) (GetMount ex (Target (ms ! i)))")
      case (Inl e)
      with "1.prems" True have "err = Wrap (''propagate '' @ Target (ms ! i)) e"
        by (subst (asm) propagate.simps) (simp add: Let_def)
      with True show ?thesis by blast
    next
      case (Inr d)
      with "1.prems" True
      have rec: "propagate eng pf ex (Suc i) (ms[i := (ms ! i)\<lparr>Source := Some d\<rparr>]) = Inl err"
        by (subst (asm) propagate.simps) (simp add: Let_def)
      from "1.IH" [OF True refl Inr rec] obtain k e where
        k: "k < length ms" "err = Wrap (''propagate '' @ Target (ms[i := (ms ! i)\<lparr>Source := Some d\<rparr>] ! k)) e"
        by auto
      have "Target (ms[i := (ms ! i)\<lparr>Source := Some d\<rparr>] ! k) = Target (ms ! k)"
        using True by (simp add: nth_list_update)
      with k show ?thesis by auto
    qed
  qed
qed

subsection \<open>The stages of Exec\<close>

lemma Exec_success_stages:
  assumes "decode cdc (ID c) = Inr p" "Exec eng cdc c pf args opts = Inr c'"
  shows "\<exists>shimSt runOpts st execDef mounts' metaDef i.
           shimBuild eng pf = Inr shimSt
         \<and> buildRunOpts eng shimSt args (Config p) (Mounts p) = Inr runOpts
         \<and> FSState eng p = Inr st
         \<and> marshal eng (Some pf) (Root (Run st runOpts)) = Inr execDef
         \<and> propagate eng pf (Run st runOpts) 0 (Mounts p) = Inr mounts'
         \<and> marshal eng (Some pf) (GetMount (Run st runOpts) metaMount) = Inr metaDef
         \<and> Encode cdc (p\<lparr>FS := Some execDef, Mounts := mounts', Meta := Some metaDef\<rparr>) = Inr i
         \<and> c' = Container i"
  using assms by (auto simp: Exec_def Let_def split: sum.splits)

lemma Exec_after_root:
  assumes "decode cdc (ID c) = Inr p" "shimBuild eng pf = Inr shimSt"
    "buildRunOpts eng shimSt args (Config p) (Mounts p) = Inr runOpts"
    "FSState eng p = Inr st" "marshal eng (Some pf) (Root (Run st runOpts)) = Inr execDef"
  shows "Exec eng cdc c pf args opts =
     (case propagate eng pf (Run st runOpts) 0 (Mounts p) of
        Inl err \<Rightarrow> Inl err
      | Inr mounts' \<Rightarrow>
          (case marshal eng (Some pf) (GetMount (Run st runOpts) metaMount) of
             Inl err \<Rightarrow> Inl (Wrap ''get meta mount'' err)
           | Inr metaDef \<Rightarrow>
               (case Encode cdc (p\<lparr>FS := Some execDef, Mounts := mounts', Meta := Some metaDef\<rparr>) of
                  Inl err \<Rightarrow> Inl (Wrap ''encode'' err)
                | Inr i \<Rightarrow> Inr (Container i))))"
  using assms by (simp add: Exec_def Let_def)

lemma buildRunOpts_Inr_sources:
  "buildRunOpts eng shimSt args cfg ms = Inr runOpts \<Longrightarrow> \<forall>m\<in>set ms. \<exists>st. SourceState eng m = Inr st"
  unfolding buildRunOpts_def Let_def by (rule mountLoop_Inr)

lemma Exec_error_stage:
  assumes dec: "decode cdc (ID c) = Inr p" and res: "Exec eng cdc c pf args opts = Inl err"
  shows "\<exists>tag e. err = Wrap tag e
           \<and> (tag \<in> {''build shim'', ''fs state'', ''marshal root'', ''get meta mount'', ''encode''}
              \<or> (\<exists>m\<in>set (Mounts p). tag = ''mount '' @ Target m \<or> tag = ''propagate '' @ Target m))"
proof (cases "shimBuild eng pf")
  case (Inl e)
  with dec res have "err = Wrap ''build shim'' e" by (simp add: Exec_def)
  then show ?thesis by simp
next
  case s1: (Inr shimSt)
  show ?thesis
  proof (cases "buildRunOpts eng shimSt args (Config p) (Mounts p)")
    case (Inl e)
    with dec res s1 have "err = e" by (simp add: Exec_def Let_def)
    with Inl have "mountLoop eng (Mounts p)
        (envLoop (Env (Config p))
           (if WorkingDir (Config p) \<noteq> []
            then initialRunOpts eng shimSt args @ [Dir (WorkingDir (Config p))]
            else initialRunOpts eng shimSt args)) = Inl err"
      by (simp add: buildRunOpts_def Let_def)
    from mountLoop_Inl [OF this] obtain m e' where
      "m \<in> set (Mounts p)" "err = Wrap (''mount '' @ Target m) e'" by blast
    then show ?thesis by blast
  next
    case s2: (Inr runOpts)
    show ?thesis
    proof (cases "FSState eng p")
      case (Inl e)
      with dec res s1 s2 have "err = Wrap ''fs state'' e" by (simp add: Exec_def Let_def)
      then show ?thesis by simp
    next
      case s3: (Inr st)
      show ?thesis
      proof (cases "marshal eng (Some pf) (Root (Run st runOpts))")
        case (Inl e)
        with dec res s1 s2 s3 have "err = Wrap ''marshal root'' e" by (simp add: Exec_def Let_def)
        then show ?thesis by simp
      next
        case s4: (Inr execDef)
        note ex = res [unfolded Exec_after_root [OF dec s1 s2 s3 s4]]
        show ?thesis
        proof (cases "propagate eng pf (Run st runOpts) 0 (Mounts p)")
          case (Inl e)
          with ex have "err = e" by simp
          with Inl propagate_Inl_tag [of eng pf "Run st runOpts" 0 "Mounts p" err]
          obtain k e' where "k < length (Mounts p)"
            "err = Wrap (''propagate '' @ Target (Mounts p ! k)) e'" by auto
          then show ?thesis by (metis nth_mem)
        next
          case s5: (Inr mounts')
          show ?thesis
          proof (cases "marshal eng (Some pf) (GetMount (Run st runOpts) metaMount)")
            case (Inl e)
            with ex s5 have "err = Wrap ''get meta mount'' e" by simp
            then show ?thesis by simp
          next
            case s6: (Inr metaDef)
            with ex s5 obtain e where "err = Wrap ''encode'' e"
              by (auto split: sum.splits)
            then show ?thesis by simp
          qed
        qed
      qed
    qed
  qed
qed

lemma example_Exec_succeeds: "\<exists>c'. Exec mockEngine specCodec exampleContainer ''linux'' [''true''] noOpts = Inr c'"
  by (simp add: Exec_def example_decodes mock_defs propagate.simps Encode_specCodec)

section \<open>Scratch\<close>

text \<open>
  C7: decoding the empty identity succeeds with the scratch payload (nil filesystem
  reference, no mounts, nil metadata reference, zero-value image configuration), and the
  filesystem of that payload resolves to the empty state without error.
\<close>

theorem decode_empty_is_scratch:
  "decode cdc [] = Inr zeroPayload
   \<and> FS zeroPayload = None \<and> Mounts zeroPayload = [] \<and> Meta zeroPayload = None
   \<and> Config zeroPayload = zeroImageConfig
   \<and> FSState eng zeroPayload = Inr Scratch"
  by (simp add: decode_def zeroPayload_def FSState_def)

section \<open>Round trip and canonical identities\<close>

text \<open>
  C5: with the codec modelled from the specification, every payload encodes to an identity
  that decodes to the same payload; equal payloads have the same identity and different
  payloads (for instance the same mounts in another order) have different identities.
\<close>

theorem codec_roundtrip_canonical:
  "(\<exists>i. Encode specCodec p = Inr i \<and> decode specCodec i = Inr p)
   \<and> (p = q \<longrightarrow> Encode specCodec p = Encode specCodec q)
   \<and> (p \<noteq> q \<longrightarrow> Encode specCodec p \<noteq> Encode specCodec q)"
  using encPayload_inj [of p q] by (auto simp: Encode_specCodec decode_specCodec)

theorem codec_roundtrip_canonical_witness:
  "(\<exists>i. Encode specCodec examplePayload = Inr i \<and> decode specCodec i = Inr examplePayload)
   \<and> Mounts reorderedPayload = rev (Mounts examplePayload)
   \<and> Encode specCodec examplePayload \<noteq> Encode specCodec reorderedPayload"
proof -
  have ne: "examplePayload \<noteq> reorderedPayload"
  proof
    assume "examplePayload = reorderedPayload"
    then have "Mounts examplePayload = Mounts reorderedPayload" by simp
    then show False by (simp add: examplePayload_def reorderedPayload_def)
  qed
  show ?thesis
    using codec_roundtrip_canonical [of examplePayload reorderedPayload] ne
    by (simp add: reorderedPayload_def)
qed

section \<open>Setting a variable\<close>

text \<open>
  C6, as stated, fails: \<open>withVariable\<close> removes the entries that begin with \<open>name=\<close>, so a
  bare entry \<open>A\<close> (which \<open>Exec\<close> reads as the variable \<open>A\<close>) survives \<open>withVariable("A", "9")\<close>
  and two entries named \<open>A\<close> coexist.
\<close>

theorem withVariable_counterexample:
  "Env (withVariable_update ''A'' ''9'' (zeroImageConfig\<lparr>Env := [''A'']\<rparr>)) = [''A'', ''A=9'']
   \<and> Env (withVariable_update ''A'' ''9'' (zeroImageConfig\<lparr>Env := [''A'']\<rparr>)) \<noteq> claimedEnv ''A'' ''9'' [''A'']
   \<and> map envName (Env (withVariable_update ''A'' ''9'' (zeroImageConfig\<lparr>Env := [''A'']\<rparr>))) = [''A'', ''A'']"
  by code_simp

text \<open>
  C6, amended: \<open>withVariable\<close> changes only the environment list, which becomes the old list
  without the entries that begin with \<open>name=\<close>, followed by the new \<open>name=value\<close>. When the
  name contains no \<open>=\<close> and the old list has no bare entry equal to the name, these are the
  entries whose name is the given name, and afterwards exactly one entry has that name.
\<close>

theorem withVariable_replaces_prefixed:
  "withVariable_update name val cfg =
     cfg\<lparr>Env := filter (\<lambda>e. \<not> prefix (name @ ''='') e) (Env cfg) @ [name @ ''='' @ val]\<rparr>
   \<and> (CHR ''='' \<notin> set name \<and> name \<notin> set (Env cfg) \<longrightarrow>
        Env (withVariable_update name val cfg) = claimedEnv name val (Env cfg)
      \<and> filter (\<lambda>e. envName e = name) (Env (withVariable_update name val cfg)) = [name @ ''='' @ val])"
proof -
  have 1: "filter (\<lambda>e. \<not> prefix (name @ ''='') e) (Env cfg) = filter (\<lambda>e. envName e \<noteq> name) (Env cfg)"
    if "CHR ''='' \<notin> set name" "name \<notin> set (Env cfg)"
    using that by (intro filter_cong refl) (metis prefix_iff_envName)
  have 2: "envName (name @ ''='' @ val) = name" if "CHR ''='' \<notin> set name"
    using that by (simp add: envName_def Cut_sep)
  have 3: "withVariable_update name val cfg =
     cfg\<lparr>Env := filter (\<lambda>e. \<not> prefix (name @ ''='') e) (Env cfg) @ [name @ ''='' @ val]\<rparr>"
    by (simp add: withVariable_update_def Let_def withVariable_loop_filter HasPrefix_prefix)
  show ?thesis
    using 1 2 3 by (auto simp: withVariable_update_Env claimedEnv_def)
qed

theorem withVariable_replaces_prefixed_witness:
  "CHR ''='' \<notin> set ''A'' \<and> ''A'' \<notin> set [''A=1'', ''B=2'']
   \<and> withVariable_update ''A'' ''9'' (zeroImageConfig\<lparr>Env := [''A=1'', ''B=2'']\<rparr>)
       = zeroImageConfig\<lparr>Env := [''B=2'', ''A=9'']\<rparr>
   \<and> Env (withVariable_update ''A'' ''9'' (zeroImageConfig\<lparr>Env := [''A=1'', ''B=2'']\<rparr>)) = [''B=2'', ''A=9'']
   \<and> claimedEnv ''A'' ''9'' [''A=1'', ''B=2''] = [''B=2'', ''A=9'']
   \<and> filter (\<lambda>e. envName e = ''A'') (Env (withVariable_update ''A'' ''9'' (zeroImageConfig\<lparr>Env := [''A=1'', ''B=2'']\<rparr>)))
       = [''A=9'']"
  using withVariable_replaces_prefixed [of "''A''" "''9''" "zeroImageConfig\<lparr>Env := [''A=1'', ''B=2'']\<rparr>"]
  by (simp add: zeroImageConfig_def envName_def claimedEnv_def)

section \<open>Frame of the configuration updates\<close>

text \<open>
  C9: \<open>UpdateImageConfig\<close>, and with it \<open>withWorkdir\<close> and \<open>withVariable\<close>, returns an identity
  that decodes to a payload with the filesystem reference, the mount list and the metadata
  reference of the original payload; only the configuration is replaced by the result of
  the update function.
\<close>

theorem UpdateImageConfig_frame:
  assumes ok: "codec_ok cdc" and dec: "decode cdc (ID c) = Inr p"
  shows "(UpdateImageConfig cdc c f = Inr c' \<longrightarrow>
            (\<exists>p'. decode cdc (ID c') = Inr p' \<and> FS p' = FS p \<and> Mounts p' = Mounts p
                  \<and> Meta p' = Meta p \<and> Config p' = f (Config p)))
       \<and> (withWorkdir cdc c path = Inr c' \<longrightarrow>
            (\<exists>p'. decode cdc (ID c') = Inr p' \<and> FS p' = FS p \<and> Mounts p' = Mounts p
                  \<and> Meta p' = Meta p))
       \<and> (withVariable cdc c name val = Inr c' \<longrightarrow>
            (\<exists>p'. decode cdc (ID c') = Inr p' \<and> FS p' = FS p \<and> Mounts p' = Mounts p
                  \<and> Meta p' = Meta p))"
proof -
  have gen: "\<exists>p'. decode cdc (ID c') = Inr p' \<and> FS p' = FS p \<and> Mounts p' = Mounts p
                  \<and> Meta p' = Meta p \<and> Config p' = g (Config p)"
    if "UpdateImageConfig cdc c g = Inr c'" for g
  proof -
    from that dec obtain i where enc: "Encode cdc (p\<lparr>Config := g (Config p)\<rparr>) = Inr i"
      and c': "c' = Container i"
      by (auto simp: UpdateImageConfig_def split: sum.splits)
    from codec_ok_decode_Encode [OF ok enc] c' show ?thesis by simp
  qed
  show ?thesis
    using gen [of f] gen [of "\<lambda>cfg. cfg\<lparr>WorkingDir := path\<rparr>"] gen [of "withVariable_update name val"]
    by (auto simp: withWorkdir_def withVariable_def)
qed

theorem UpdateImageConfig_frame_witness:
  "codec_ok specCodec \<and> decode specCodec (ID exampleContainer) = Inr examplePayload
   \<and> (\<exists>c' p'. UpdateImageConfig specCodec exampleContainer (\<lambda>cfg. cfg\<lparr>Cmd := []\<rparr>) = Inr c'
         \<and> decode specCodec (ID c') = Inr p' \<and> FS p' = FS examplePayload
         \<and> Mounts p' = Mounts examplePayload \<and> Meta p' = Meta examplePayload
         \<and> Config p' = (Config examplePayload)\<lparr>Cmd := []\<rparr>)
   \<and> (\<exists>c' p'. withWorkdir specCodec exampleContainer ''/app'' = Inr c'
         \<and> decode specCodec (ID c') = Inr p' \<and> FS p' = FS examplePayload
         \<and> Mounts p' = Mounts examplePayload \<and> Meta p' = Meta examplePayload)
   \<and> (\<exists>c' p'. withVariable specCodec exampleContainer ''A'' ''9'' = Inr c'
         \<and> decode specCodec (ID c') = Inr p' \<and> FS p' = FS examplePayload
         \<and> Mounts p' = Mounts examplePayload \<and> Meta p' = Meta examplePayload)"
proof -
  note ok = specCodec_ok and dec = example_decodes
  have r: "\<exists>c'. UpdateImageConfig specCodec exampleContainer g = Inr c'" for g
    by (simp add: UpdateImageConfig_def dec Encode_specCodec)
  from r obtain c1 where
    c1: "UpdateImageConfig specCodec exampleContainer (\<lambda>cfg. cfg\<lparr>Cmd := []\<rparr>) = Inr c1" by blast
  from r obtain c2 where c2: "withWorkdir specCodec exampleContainer ''/app'' = Inr c2"
    unfolding withWorkdir_def by blast
  from r obtain c3 where c3: "withVariable specCodec exampleContainer ''A'' ''9'' = Inr c3"
    unfolding withVariable_def by blast
  from UpdateImageConfig_frame [OF ok dec, where c' = c1 and f = "\<lambda>cfg. cfg\<lparr>Cmd := []\<rparr>"] c1
  have "\<exists>p'. decode specCodec (ID c1) = Inr p' \<and> FS p' = FS examplePayload
         \<and> Mounts p' = Mounts examplePayload \<and> Meta p' = Meta examplePayload
         \<and> Config p' = (Config examplePayload)\<lparr>Cmd := []\<rparr>" by blast
  moreover
  from UpdateImageConfig_frame [OF ok dec, where c' = c2 and path = "''/app''"] c2
  have "\<exists>p'. decode specCodec (ID c2) = Inr p' \<and> FS p' = FS examplePayload
         \<and> Mounts p' = Mounts examplePayload \<and> Meta p' = Meta examplePayload" by blast
  moreover
  from UpdateImageConfig_frame [OF ok dec, where c' = c3 and name = "''A''" and val = "''9''"] c3
  have "\<exists>p'. decode specCodec (ID c3) = Inr p' \<and> FS p' = FS examplePayload
         \<and> Mounts p' = Mounts examplePayload \<and> Meta p' = Meta examplePayload" by blast
  ultimately show ?thesis using ok dec c1 c2 c3 by blast
qed

section \<open>Mounting a directory\<close>

text \<open>
  C10: a successful \<open>WithMountedDirectory\<close> returns an identity that decodes to the original
  payload with one mount entry (the marshaled source, its sub-path, the target) appended
  at the end of the mount list; nothing else changes, the earlier entries keep their order
  and a target that is already mounted is accepted.
\<close>

theorem WithMountedDirectory_appends:
  assumes ok: "codec_ok cdc" and dec: "decode cdc (ID c) = Inr p"
    and res: "WithMountedDirectory eng cdc c target source = Inr c'"
  shows "\<exists>dirSt dirRel dirDef.
           dirDecode eng source = Inr (dirSt, dirRel)
         \<and> marshal eng None dirSt = Inr dirDef
         \<and> decode cdc (ID c') =
             Inr (p\<lparr>Mounts := Mounts p @ [\<lparr>Source = Some dirDef, SourcePath = dirRel, Target = target\<rparr>]\<rparr>)"
proof -
  from res dec obtain dirSt dirRel dirDef i where
    d: "dirDecode eng source = Inr (dirSt, dirRel)" and m: "marshal eng None dirSt = Inr dirDef"
    and enc: "Encode cdc (p\<lparr>Mounts := Mounts p @ [\<lparr>Source = Some dirDef, SourcePath = dirRel, Target = target\<rparr>]\<rparr>) = Inr i"
    and c': "c' = Container i"
    by (auto simp: WithMountedDirectory_def split: sum.splits prod.splits)
  from codec_ok_decode_Encode [OF ok enc] c' d m show ?thesis by simp
qed

theorem WithMountedDirectory_appends_witness:
  "codec_ok specCodec \<and> decode specCodec (ID exampleContainer) = Inr examplePayload
   \<and> (\<exists>c'. WithMountedDirectory mockEngine specCodec exampleContainer ''/data'' (Directory ''d3'') = Inr c'
         \<and> decode specCodec (ID c') =
             Inr (examplePayload\<lparr>Mounts := Mounts examplePayload @
                    [\<lparr>Source = Some ''d3'', SourcePath = [], Target = ''/data''\<rparr>]\<rparr>))"
proof -
  note ok = specCodec_ok and dec = example_decodes
  have "\<exists>c'. WithMountedDirectory mockEngine specCodec exampleContainer ''/data'' (Directory ''d3'') = Inr c'"
    by (simp add: WithMountedDirectory_def dec Encode_specCodec mockEngine_def)
  then obtain c' where
    r: "WithMountedDirectory mockEngine specCodec exampleContainer ''/data'' (Directory ''d3'') = Inr c'"
    by blast
  from WithMountedDirectory_appends [OF ok dec r]
  have "decode specCodec (ID c') =
             Inr (examplePayload\<lparr>Mounts := Mounts examplePayload @
                    [\<lparr>Source = Some ''d3'', SourcePath = [], Target = ''/data''\<rparr>]\<rparr>)"
    by (auto simp: mockEngine_def stateName_def)
  with ok dec r show ?thesis by blast
qed

section \<open>Execution options\<close>

text \<open>
  C2, as stated, fails: with \<open>stdin\<close>, \<open>redirectStdout\<close> and \<open>redirectStderr\<close> all set, \<open>Exec\<close>
  on the scratch container succeeds and returns a new container; no error is reported.
\<close>

theorem Exec_opts_counterexample:
  "Stdin allOpts = Some ''input'' \<and> RedirectStdout allOpts = Some ''/out''
   \<and> RedirectStderr allOpts = Some ''/err''
   \<and> Exec mockEngine specCodec (Container []) ''linux'' [''/bin/true''] allOpts
       = Inr executedContainer"
  by code_simp

text \<open>
  C2, amended: \<open>Exec\<close> never reads its options; whatever they carry, the result is the one
  obtained with any other options, in particular with none set.
\<close>

theorem Exec_ignores_opts:
  "Exec eng cdc c pf args opts = Exec eng cdc c pf args opts'"
  by (simp add: Exec_def)

section \<open>Exit code\<close>

text \<open>
  \<open>ExitCode\<close> returns early exactly when \<open>MetaFile\<close> found a file, and reads the contents of
  the file only when there is none.
\<close>

lemma ExitCode_file_found:
  "MetaFile eng cdc c ''exitCode'' = Inr (Some f) \<Longrightarrow> ExitCode eng cdc c = Inr None"
  by (simp add: ExitCode_def)

lemma ExitCode_no_file:
  "MetaFile eng cdc c ''exitCode'' = Inr None \<Longrightarrow>
     ExitCode eng cdc c =
       (case fileContents eng None of
          Inl err \<Rightarrow> Inl err
        | Inr content \<Rightarrow> (case Atoi content of Inl err \<Rightarrow> Inl err | Inr n \<Rightarrow> Inr (Some n)))"
  by (simp add: ExitCode_def)

text \<open>
  C1 at a container that has run: the metadata reference is set, the file \<open>exitCode\<close> is
  found and holds \<open>0\<close>, which parses to the integer 0, and \<open>ExitCode\<close> answers that no exit
  code is available. At the scratch container, whose metadata reference is nil, \<open>ExitCode\<close>
  asks the nil file for its contents and returns what that call returns.
\<close>

theorem ExitCode_inverted:
  "MetaFile mockEngine specCodec executedContainer ''exitCode'' = Inr (Some (File ''exitCode''))
   \<and> fileContents mockEngine (Some (File ''exitCode'')) = Inr ''0''
   \<and> Atoi ''0'' = Inr 0
   \<and> ExitCode mockEngine specCodec executedContainer = Inr None
   \<and> MetaFile mockEngine specCodec (Container []) ''exitCode'' = Inr None
   \<and> ExitCode mockEngine specCodec (Container []) = Inl (Err ''nil file'')"
  by code_simp

section \<open>Failures of Exec\<close>

text \<open>
  C3: when the shim cannot be built, or the source of a mount or the filesystem does not
  resolve, or marshaling the root, the state of a mount target or the metadata mount of
  the executed state fails, \<open>Exec\<close> returns an error and no container. The identity it was
  given is a value that \<open>Exec\<close> cannot change: it decodes to the payload it decoded to before.
\<close>

theorem Exec_failure_isolated:
  assumes dec: "decode cdc (ID c) = Inr p"
    and fail:
      "(\<exists>e. shimBuild eng pf = Inl e)
     \<or> (\<exists>m\<in>set (Mounts p). \<exists>e. SourceState eng m = Inl e)
     \<or> (\<exists>e. FSState eng p = Inl e)
     \<or> (\<exists>shimSt runOpts st.
           shimBuild eng pf = Inr shimSt
         \<and> buildRunOpts eng shimSt args (Config p) (Mounts p) = Inr runOpts
         \<and> FSState eng p = Inr st
         \<and> ((\<exists>e. marshal eng (Some pf) (Root (Run st runOpts)) = Inl e)
            \<or> (\<exists>m\<in>set (Mounts p). \<exists>e. marshal eng (Some pf) (GetMount (Run st runOpts) (Target m)) = Inl e)
            \<or> (\<exists>e. marshal eng (Some pf) (GetMount (Run st runOpts) metaMount) = Inl e)))"
  shows "(\<exists>err. Exec eng cdc c pf args opts = Inl err) \<and> decode cdc (ID c) = Inr p"
proof -
  have "Exec eng cdc c pf args opts \<noteq> Inr c'" for c'
  proof
    assume "Exec eng cdc c pf args opts = Inr c'"
    from Exec_success_stages [OF dec this] obtain shimSt runOpts st execDef mounts' metaDef where
      s1: "shimBuild eng pf = Inr shimSt"
      and s2: "buildRunOpts eng shimSt args (Config p) (Mounts p) = Inr runOpts"
      and s3: "FSState eng p = Inr st"
      and s4: "marshal eng (Some pf) (Root (Run st runOpts)) = Inr execDef"
      and s5: "propagate eng pf (Run st runOpts) 0 (Mounts p) = Inr mounts'"
      and s6: "marshal eng (Some pf) (GetMount (Run st runOpts) metaMount) = Inr metaDef"
      by blast
    from buildRunOpts_Inr_sources [OF s2]
    have src: "\<forall>m\<in>set (Mounts p). \<exists>st. SourceState eng m = Inr st" .
    have pm: "\<exists>d. marshal eng (Some pf) (GetMount (Run st runOpts) (Target m)) = Inr d"
      if "m \<in> set (Mounts p)" for m
    proof -
      from that obtain k where k: "k < length (Mounts p)" "Mounts p ! k = m"
        by (auto simp: in_set_conv_nth)
      with propagate_Inr [OF s5] show ?thesis by auto
    qed
    from fail show False
    proof (elim disjE exE bexE conjE)
      fix e assume "shimBuild eng pf = Inl e" with s1 show False by simp
    next
      fix m e assume "m \<in> set (Mounts p)" "SourceState eng m = Inl e"
      with src show False by auto
    next
      fix e assume "FSState eng p = Inl e" with s3 show False by simp
    next
      fix shimSt' runOpts' st' e
      assume "shimBuild eng pf = Inr shimSt'"
        "buildRunOpts eng shimSt' args (Config p) (Mounts p) = Inr runOpts'"
        "FSState eng p = Inr st'"
        "marshal eng (Some pf) (Root (Run st' runOpts')) = Inl e"
      with s1 s2 s3 s4 show False by simp
    next
      fix shimSt' runOpts' st' m e
      assume "shimBuild eng pf = Inr shimSt'"
        "buildRunOpts eng shimSt' args (Config p) (Mounts p) = Inr runOpts'"
        "FSState eng p = Inr st'" "m \<in> set (Mounts p)"
        "marshal eng (Some pf) (GetMount (Run st' runOpts') (Target m)) = Inl e"
      with s1 s2 s3 pm [of m] show False by auto
    next
      fix shimSt' runOpts' st' e
      assume "shimBuild eng pf = Inr shimSt'"
        "buildRunOpts eng shimSt' args (Config p) (Mounts p) = Inr runOpts'"
        "FSState eng p = Inr st'"
        "marshal eng (Some pf) (GetMount (Run st' runOpts') metaMount) = Inl e"
      with s1 s2 s3 s6 show False by simp
    qed
  qed
  then have "\<exists>err. Exec eng cdc c pf args opts = Inl err"
    by (cases "Exec eng cdc c pf args opts") auto
  with dec show ?thesis by simp
qed

theorem Exec_failure_isolated_witness:
  "decode specCodec (ID exampleContainer) = Inr examplePayload
   \<and> (\<exists>e. marshal (failingEngine metaMount) (Some ''linux'')
              (GetMount (Run (External ''root'') []) metaMount) = Inl e)
   \<and> (\<exists>err. Exec (failingEngine metaMount) specCodec exampleContainer ''linux'' [''true''] noOpts = Inl err)"
proof -
  note dec = example_decodes
  let ?eng = "failingEngine metaMount"
  have s1: "shimBuild ?eng ''linux'' = Inr (External ''shim'')"
    by (simp add: failingEngine_def mockEngine_def)
  obtain runOpts where
    s2: "buildRunOpts ?eng (External ''shim'') [''true''] (Config examplePayload) (Mounts examplePayload) = Inr runOpts"
    by (simp add: mock_defs)
  have s3: "FSState ?eng examplePayload = Inr (External ''root'')"
    by (simp add: mock_defs)
  have m: "marshal ?eng (Some ''linux'') (GetMount ex metaMount) = Inl (Err ''marshal failed'')" for ex
    by (simp add: failingEngine_def)
  from Exec_failure_isolated [OF dec, of ?eng "''linux''" "[''true'']" noOpts] s1 s2 s3 m
  have "\<exists>err. Exec ?eng specCodec exampleContainer ''linux'' [''true''] noOpts = Inl err"
    by blast
  with dec m show ?thesis by blast
qed

section \<open>Mount propagation\<close>

text \<open>
  C4: let the stages of \<open>Exec\<close> up to the marshaling of the root succeed, with \<open>Run st runOpts\<close>
  the executed state. If \<open>Exec\<close> succeeds, the new payload has as many mounts as the old
  one, each with the target and sub-path of the old entry at its position and, as source,
  the marshaled state of that target in the executed state. If marshaling the state of
  the target of mount \<open>n\<close> is the first to fail, \<open>Exec\<close> returns that error tagged
  \<open>propagate <target>\<close>.
\<close>

theorem Exec_propagates_mounts:
  assumes ok: "codec_ok cdc" and dec: "decode cdc (ID c) = Inr p"
    and s1: "shimBuild eng pf = Inr shimSt"
    and s2: "buildRunOpts eng shimSt args (Config p) (Mounts p) = Inr runOpts"
    and s3: "FSState eng p = Inr st"
    and s4: "marshal eng (Some pf) (Root (Run st runOpts)) = Inr execDef"
  shows "(\<forall>c'. Exec eng cdc c pf args opts = Inr c' \<longrightarrow>
            (\<exists>p'. decode cdc (ID c') = Inr p'
                 \<and> length (Mounts p') = length (Mounts p)
                 \<and> (\<forall>k<length (Mounts p).
                      Target (Mounts p' ! k) = Target (Mounts p ! k)
                    \<and> SourcePath (Mounts p' ! k) = SourcePath (Mounts p ! k)
                    \<and> (\<exists>d. marshal eng (Some pf) (GetMount (Run st runOpts) (Target (Mounts p ! k))) = Inr d
                          \<and> Source (Mounts p' ! k) = Some d))))
       \<and> (\<forall>n e. n < length (Mounts p)
               \<and> (\<forall>j<n. \<exists>d. marshal eng (Some pf) (GetMount (Run st runOpts) (Target (Mounts p ! j))) = Inr d)
               \<and> marshal eng (Some pf) (GetMount (Run st runOpts) (Target (Mounts p ! n))) = Inl e
             \<longrightarrow> Exec eng cdc c pf args opts = Inl (Wrap (''propagate '' @ Target (Mounts p ! n)) e))"
proof (intro conjI allI impI)
  fix c' assume res: "Exec eng cdc c pf args opts = Inr c'"
  from res obtain mounts' metaDef i where
    pr: "propagate eng pf (Run st runOpts) 0 (Mounts p) = Inr mounts'"
    and enc: "Encode cdc (p\<lparr>FS := Some execDef, Mounts := mounts', Meta := Some metaDef\<rparr>) = Inr i"
    and c': "c' = Container i"
    unfolding Exec_after_root [OF dec s1 s2 s3 s4] by (auto split: sum.splits)
  from codec_ok_decode_Encode [OF ok enc] c'
  have d': "decode cdc (ID c') = Inr (p\<lparr>FS := Some execDef, Mounts := mounts', Meta := Some metaDef\<rparr>)"
    by simp
  from propagate_Inr [OF pr] d'
  show "\<exists>p'. decode cdc (ID c') = Inr p'
           \<and> length (Mounts p') = length (Mounts p)
           \<and> (\<forall>k<length (Mounts p).
                Target (Mounts p' ! k) = Target (Mounts p ! k)
              \<and> SourcePath (Mounts p' ! k) = SourcePath (Mounts p ! k)
              \<and> (\<exists>d. marshal eng (Some pf) (GetMount (Run st runOpts) (Target (Mounts p ! k))) = Inr d
                    \<and> Source (Mounts p' ! k) = Some d))"
    by simp
next
  fix n e
  assume a: "n < length (Mounts p)
        \<and> (\<forall>j<n. \<exists>d. marshal eng (Some pf) (GetMount (Run st runOpts) (Target (Mounts p ! j))) = Inr d)
        \<and> marshal eng (Some pf) (GetMount (Run st runOpts) (Target (Mounts p ! n))) = Inl e"
  then have "propagate eng pf (Run st runOpts) 0 (Mounts p) = Inl (Wrap (''propagate '' @ Target (Mounts p ! n)) e)"
    by (intro propagate_Inl) auto
  then show "Exec eng cdc c pf args opts = Inl (Wrap (''propagate '' @ Target (Mounts p ! n)) e)"
    unfolding Exec_after_root [OF dec s1 s2 s3 s4] by simp
qed

theorem Exec_propagates_mounts_witness:
  "(\<exists>c' p'. Exec mockEngine specCodec exampleContainer ''linux'' [''true''] noOpts = Inr c'
       \<and> decode specCodec (ID c') = Inr p'
       \<and> length (Mounts p') = 2
       \<and> Target (Mounts p' ! 0) = ''/data'' \<and> Source (Mounts p' ! 0) = Some ''mount:/data''
       \<and> Target (Mounts p' ! 1) = ''/cache'' \<and> SourcePath (Mounts p' ! 1) = ''sub''
       \<and> Source (Mounts p' ! 1) = Some ''mount:/cache'')
   \<and> Exec (failingEngine ''/cache'') specCodec exampleContainer ''linux'' [''true''] noOpts
       = Inl (Wrap ''propagate /cache'' (Err ''marshal failed''))"
proof -
  note ok = specCodec_ok and dec = example_decodes
  have len: "length (Mounts examplePayload) = 2"
    and t0: "Target (Mounts examplePayload ! 0) = ''/data''"
    and t1: "Target (Mounts examplePayload ! 1) = ''/cache''"
    and p1: "SourcePath (Mounts examplePayload ! 1) = ''sub''"
    by (simp_all add: examplePayload_def)
  have s1: "shimBuild mockEngine ''linux'' = Inr (External ''shim'')"
    by (simp add: mockEngine_def)
  obtain runOpts where
    s2: "buildRunOpts mockEngine (External ''shim'') [''true''] (Config examplePayload) (Mounts examplePayload) = Inr runOpts"
    by (simp add: mock_defs)
  have s3: "FSState mockEngine examplePayload = Inr (External ''root'')"
    by (simp add: mock_defs)
  have s4: "marshal mockEngine (Some ''linux'') (Root (Run (External ''root'') runOpts)) = Inr ''root''"
    by (simp add: mockEngine_def stateName_def)
  have mm: "marshal mockEngine (Some ''linux'') (GetMount ex t) = Inr (''mount:'' @ t)" for ex t
    by (simp add: mockEngine_def stateName_def)
  note th = Exec_propagates_mounts [OF ok dec s1 s2 s3 s4, where opts = noOpts]
  obtain c' where r: "Exec mockEngine specCodec exampleContainer ''linux'' [''true''] noOpts = Inr c'"
    using example_Exec_succeeds by blast
  from th r obtain p' where p': "decode specCodec (ID c') = Inr p'"
    "length (Mounts p') = length (Mounts examplePayload)"
    "\<forall>k<length (Mounts examplePayload).
        Target (Mounts p' ! k) = Target (Mounts examplePayload ! k)
      \<and> SourcePath (Mounts p' ! k) = SourcePath (Mounts examplePayload ! k)
      \<and> (\<exists>d. marshal mockEngine (Some ''linux'')
                 (GetMount (Run (External ''root'') runOpts) (Target (Mounts examplePayload ! k))) = Inr d
            \<and> Source (Mounts p' ! k) = Some d)"
    by blast
  from p'(3) len have k0: "Target (Mounts p' ! 0) = ''/data'' \<and> Source (Mounts p' ! 0) = Some ''mount:/data''"
    using t0 mm by (metis Inr_inject zero_less_numeral append.simps)
  from p'(3) len have k1: "Target (Mounts p' ! 1) = ''/cache'' \<and> SourcePath (Mounts p' ! 1) = ''sub''
       \<and> Source (Mounts p' ! 1) = Some ''mount:/cache''"
    using t1 p1 mm by (metis Inr_inject one_less_numeral_iff semiring_norm(76) append.simps)
  have first: "\<exists>c' p'. Exec mockEngine specCodec exampleContainer ''linux'' [''true''] noOpts = Inr c'
       \<and> decode specCodec (ID c') = Inr p'
       \<and> length (Mounts p') = 2
       \<and> Target (Mounts p' ! 0) = ''/data'' \<and> Source (Mounts p' ! 0) = Some ''mount:/data''
       \<and> Target (Mounts p' ! 1) = ''/cache'' \<and> SourcePath (Mounts p' ! 1) = ''sub''
       \<and> Source (Mounts p' ! 1) = Some ''mount:/cache''"
    using r p'(1,2) len k0 k1 by auto
  let ?eng = "failingEngine ''/cache''"
  have f1: "shimBuild ?eng ''linux'' = Inr (External ''shim'')"
    by (simp add: failingEngine_def mockEngine_def)
  obtain runOpts' where
    f2: "buildRunOpts ?eng (External ''shim'') [''true''] (Config examplePayload) (Mounts examplePayload) = Inr runOpts'"
    by (simp add: mock_defs)
  have f3: "FSState ?eng examplePayload = Inr (External ''root'')"
    by (simp add: mock_defs)
  have f4: "marshal ?eng (Some ''linux'') (Root (Run (External ''root'') runOpts')) = Inr ''root''"
    by (simp add: failingEngine_def stateName_def)
  have g0: "marshal ?eng (Some ''linux'') (GetMount ex ''/data'') = Inr ''mount:/data''" for ex
    by (simp add: failingEngine_def stateName_def)
  have g1: "marshal ?eng (Some ''linux'') (GetMount ex ''/cache'') = Inl (Err ''marshal failed'')" for ex
    by (simp add: failingEngine_def)
  note th' = Exec_propagates_mounts [OF ok dec f1 f2 f3 f4, where opts = noOpts]
  have "\<forall>j<1. \<exists>d. marshal ?eng (Some ''linux'')
            (GetMount (Run (External ''root'') runOpts') (Target (Mounts examplePayload ! j))) = Inr d"
    using g0 t0 by simp
  with th' len t1 g1
  have "Exec ?eng specCodec exampleContainer ''linux'' [''true''] noOpts
       = Inl (Wrap (''propagate '' @ Target (Mounts examplePayload ! 1)) (Err ''marshal failed''))"
    by (metis one_less_numeral_iff semiring_norm(76))
  with t1 have second: "Exec ?eng specCodec exampleContainer ''linux'' [''true''] noOpts
       = Inl (Wrap ''propagate /cache'' (Err ''marshal failed''))" by simp
  from first second show ?thesis by blast
qed

section \<open>Environment entries without a separator\<close>

text \<open>
  C8: for an environment entry without \<open>=\<close>, \<open>strings.Cut\<close> gives the whole entry as name and
  the empty string as value; when \<open>Exec\<close> succeeds, the run it marshaled carries the option
  \<open>AddEnv entry ""\<close>; and when \<open>Exec\<close> fails, the error comes from one of its stages (shim,
  mount source, filesystem, marshal, encode), none of which is the environment loop.
\<close>

theorem Exec_env_without_separator:
  assumes dec: "decode cdc (ID c) = Inr p"
    and mem: "env \<in> set (Env (Config p))" and nosep: "CHR ''='' \<notin> set env"
  shows "Cut env CHR ''='' = (env, [], False)
       \<and> (\<forall>c'. Exec eng cdc c pf args opts = Inr c' \<longrightarrow>
             (\<exists>shimSt runOpts st d.
                 shimBuild eng pf = Inr shimSt
               \<and> buildRunOpts eng shimSt args (Config p) (Mounts p) = Inr runOpts
               \<and> FSState eng p = Inr st
               \<and> marshal eng (Some pf) (Root (Run st runOpts)) = Inr d
               \<and> AddEnv env [] \<in> set runOpts))
       \<and> (\<forall>err. Exec eng cdc c pf args opts = Inl err \<longrightarrow>
             (\<exists>tag e. err = Wrap tag e
               \<and> (tag \<in> {''build shim'', ''fs state'', ''marshal root'', ''get meta mount'', ''encode''}
                  \<or> (\<exists>m\<in>set (Mounts p). tag = ''mount '' @ Target m \<or> tag = ''propagate '' @ Target m))))"
proof (intro conjI allI impI)
  show "Cut env CHR ''='' = (env, [], False)" using nosep by (rule Cut_no_sep)
next
  fix c' assume "Exec eng cdc c pf args opts = Inr c'"
  from Exec_success_stages [OF dec this] obtain shimSt runOpts st execDef where
    s: "shimBuild eng pf = Inr shimSt"
       "buildRunOpts eng shimSt args (Config p) (Mounts p) = Inr runOpts"
       "FSState eng p = Inr st"
       "marshal eng (Some pf) (Root (Run st runOpts)) = Inr execDef"
    by blast
  from s(2) obtain opts0 where
    ml: "mountLoop eng (Mounts p) (envLoop (Env (Config p)) opts0) = Inr runOpts"
    by (auto simp: buildRunOpts_def Let_def)
  have "AddEnv env [] \<in> set (envLoop (Env (Config p)) opts0)"
    using mem nosep by (rule envLoop_mem)
  with ml have "AddEnv env [] \<in> set runOpts" by (rule mountLoop_keeps)
  with s show "\<exists>shimSt runOpts st d.
                 shimBuild eng pf = Inr shimSt
               \<and> buildRunOpts eng shimSt args (Config p) (Mounts p) = Inr runOpts
               \<and> FSState eng p = Inr st
               \<and> marshal eng (Some pf) (Root (Run st runOpts)) = Inr d
               \<and> AddEnv env [] \<in> set runOpts"
    by blast
next
  fix err assume "Exec eng cdc c pf args opts = Inl err"
  from Exec_error_stage [OF dec this]
  show "\<exists>tag e. err = Wrap tag e
               \<and> (tag \<in> {''build shim'', ''fs state'', ''marshal root'', ''get meta mount'', ''encode''}
                  \<or> (\<exists>m\<in>set (Mounts p). tag = ''mount '' @ Target m \<or> tag = ''propagate '' @ Target m))" .
qed

theorem Exec_env_without_separator_witness:
  "decode specCodec (ID exampleContainer) = Inr examplePayload
   \<and> ''DEBUG'' \<in> set (Env (Config examplePayload)) \<and> CHR ''='' \<notin> set ''DEBUG''
   \<and> Cut ''DEBUG'' CHR ''='' = (''DEBUG'', [], False)
   \<and> (\<exists>c' runOpts.
         Exec mockEngine specCodec exampleContainer ''linux'' [''true''] noOpts = Inr c'
       \<and> buildRunOpts mockEngine (External ''shim'') [''true''] (Config examplePayload)
            (Mounts examplePayload) = Inr runOpts
       \<and> AddEnv ''DEBUG'' [] \<in> set runOpts)"
proof -
  note dec = example_decodes
  have mem: "''DEBUG'' \<in> set (Env (Config examplePayload))" by (simp add: examplePayload_def)
  have ns: "CHR ''='' \<notin> set ''DEBUG''" by simp
  note th = Exec_env_without_separator [OF dec mem ns, of mockEngine "''linux''" "[''true'']" noOpts]
  obtain c' where r: "Exec mockEngine specCodec exampleContainer ''linux'' [''true''] noOpts = Inr c'"
    using example_Exec_succeeds by blast
  have s1: "shimBuild mockEngine ''linux'' = Inr (External ''shim'')"
    by (simp add: mockEngine_def)
  from th r s1 obtain runOpts where
    "buildRunOpts mockEngine (External ''shim'') [''true''] (Config examplePayload)
            (Mounts examplePayload) = Inr runOpts" "AddEnv ''DEBUG'' [] \<in> set runOpts"
    by (metis Inr_inject)
  with th r dec mem ns show ?thesis by blast
qed

end
